theory Spec2Isabelle
  imports Complex_Main "HOL-Library.AList" "HOL-Library.Char_ord" "HOL-Library.List_Lexorder"
    "HOL-Library.Log_Nat"
begin

section \<open>Exchange-rate ETL: the data the script works on\<close>

text \<open>
  The script \<^verbatim>\<open>etl_exchange_rates.py\<close> reads two CSV files through
  \<^verbatim>\<open>pandas.read_csv\<close>, extracts the rates of four currencies, averages the
  historical ones and renders a table. The embedding starts where the script's own code
  starts: at the outcome of \<^verbatim>\<open>csv_file.exists()\<close> and \<^verbatim>\<open>pd.read_csv\<close>.

  A Python \<^verbatim>\<open>float\<close> is modelled by its value: a finite double is the rational
  number it stands for, and the three special values are constructors of their own.
  Arithmetic rounds as IEEE 754 binary64 does (\<open>round_double\<close> below) and overflows to
  infinity; every comparison with NaN is false. The negative zero is not distinguished
  from zero. The conversion of text gives the decimal value the text spells, without
  rounding it to a double.
\<close>

datatype pyfloat = Fin rat | PInf | NInf | NaN

text \<open>A cell of a DataFrame read from CSV: a float (a missing value is the float NaN) or,
  in a column that did not parse as numbers, a string.\<close>

datatype cell = Num pyfloat | Str string

text \<open>\<^verbatim>\<open>TARGET_CURRENCIES: List[str] = ['USD', 'SEK', 'GBP', 'JPY']\<close>\<close>

definition TARGET_CURRENCIES :: "string list" where
  "TARGET_CURRENCIES = [''USD'', ''SEK'', ''GBP'', ''JPY'']"

subsection \<open>The operations of Python and pandas the script applies to a cell\<close>

text \<open>\<^verbatim>\<open>pd.isna(v)\<close>: true of the float NaN, false of every string.\<close>

fun isna :: "cell \<Rightarrow> bool" where
  "isna (Num NaN) = True"
| "isna (Num _) = False"
| "isna (Str _) = False"

text \<open>\<^verbatim>\<open>x <= 0\<close> on floats.\<close>

fun le_zero :: "pyfloat \<Rightarrow> bool" where
  "le_zero (Fin q) = (q \<le> 0)"
| "le_zero NInf = True"
| "le_zero PInf = False"
| "le_zero NaN = False"

text \<open>\<^verbatim>\<open>x > 0\<close> on floats.\<close>

fun gt_zero :: "pyfloat \<Rightarrow> bool" where
  "gt_zero (Fin q) = (0 < q)"
| "gt_zero PInf = True"
| "gt_zero NInf = False"
| "gt_zero NaN = False"

text \<open>The truth value of a float in a condition (\<^verbatim>\<open>if x\<close>): false exactly for zero.\<close>

fun truthy :: "pyfloat \<Rightarrow> bool" where
  "truthy (Fin q) = (q \<noteq> 0)"
| "truthy _ = True"

text \<open>
  \<^verbatim>\<open>float(s)\<close> on a string, after the grammar of the Python language reference:
  surrounding whitespace is stripped; an optional sign; then \<^verbatim>\<open>inf\<close>,
  \<^verbatim>\<open>infinity\<close> or \<^verbatim>\<open>nan\<close> in any letter case, or a decimal number
  \<^verbatim>\<open>[digitpart] "." digitpart | digitpart ["."]\<close> with an optional exponent, where a
  digitpart is digits with single underscores allowed between them. \<open>None\<close> is the
  \<^verbatim>\<open>ValueError\<close>. Strings are bytes here: the whitespace and the digits are the
  ASCII ones.
\<close>

definition is_space :: "char \<Rightarrow> bool" where
  "is_space c =
     (c \<in> set [CHR '' '', CHR 0x09, CHR 0x0A, CHR 0x0B, CHR 0x0C, CHR 0x0D,
                CHR 0x1C, CHR 0x1D, CHR 0x1E, CHR 0x1F])"

definition strip :: "string \<Rightarrow> string" where
  "strip s = rev (dropWhile is_space (rev (dropWhile is_space s)))"

definition digit_val :: "char \<Rightarrow> nat option" where
  "digit_val c =
     (let n = of_char c :: nat in if 48 \<le> n \<and> n \<le> 57 then Some (n - 48) else None)"

definition lower :: "char \<Rightarrow> char" where
  "lower c = (let n = of_char c :: nat in if 65 \<le> n \<and> n \<le> 90 then char_of (n + 32) else c)"

text \<open>The digits after the first one of a digitpart, with what follows them.\<close>

fun digit_rest :: "nat list \<Rightarrow> string \<Rightarrow> nat list \<times> string" where
  "digit_rest acc [] = (acc, [])"
| "digit_rest acc [c] =
     (case digit_val c of Some d \<Rightarrow> (acc @ [d], []) | None \<Rightarrow> (acc, [c]))"
| "digit_rest acc (c # c' # cs) =
     (case digit_val c of
        Some d \<Rightarrow> digit_rest (acc @ [d]) (c' # cs)
      | None \<Rightarrow>
          (if c = CHR ''_'' then
             (case digit_val c' of
                Some d' \<Rightarrow> digit_rest (acc @ [d']) cs
              | None \<Rightarrow> (acc, c # c' # cs))
           else (acc, c # c' # cs)))"

text \<open>A digitpart at the head of the string, if there is one.\<close>

fun digitpart :: "string \<Rightarrow> (nat list \<times> string) option" where
  "digitpart [] = None"
| "digitpart (c # cs) =
     (case digit_val c of Some d \<Rightarrow> Some (digit_rest [d] cs) | None \<Rightarrow> None)"

definition digits_value :: "nat list \<Rightarrow> nat" where
  "digits_value ds = foldl (\<lambda>n d. 10 * n + d) 0 ds"

text \<open>The mantissa: integer digits and fraction digits, at least one digit in all.\<close>

definition mantissa :: "string \<Rightarrow> (nat list \<times> nat list \<times> string) option" where
  "mantissa s =
     (case digitpart s of
        Some (ds, rest) \<Rightarrow>
          (case rest of
             c # rest' \<Rightarrow>
               (if c = CHR ''.'' then
                  (case digitpart rest' of
                     Some (fs, rest'') \<Rightarrow> Some (ds, fs, rest'')
                   | None \<Rightarrow> Some (ds, [], rest'))
                else Some (ds, [], rest))
           | [] \<Rightarrow> Some (ds, [], []))
      | None \<Rightarrow>
          (case s of
             c # rest \<Rightarrow>
               (if c = CHR ''.'' then
                  (case digitpart rest of
                     Some (fs, rest') \<Rightarrow> Some ([], fs, rest')
                   | None \<Rightarrow> None)
                else None)
           | [] \<Rightarrow> None))"

text \<open>The exponent: nothing, or \<^verbatim>\<open>e\<close>, an optional sign and a digitpart, up to the
  end of the string.\<close>

definition exponent :: "string \<Rightarrow> int option" where
  "exponent s =
     (case s of
        [] \<Rightarrow> Some 0
      | c # rest \<Rightarrow>
          (if lower c = CHR ''e'' then
             (let (neg, rest') =
                    (case rest of
                       d # r \<Rightarrow>
                         (if d = CHR ''-'' then (True, r)
                          else if d = CHR ''+'' then (False, r) else (False, rest))
                     | [] \<Rightarrow> (False, rest))
              in case digitpart rest' of
                   Some (es, []) \<Rightarrow>
                     Some (if neg then - int (digits_value es) else int (digits_value es))
                 | Some (es, _ # _) \<Rightarrow> None
                 | None \<Rightarrow> None)
           else None))"

definition scale10 :: "rat \<Rightarrow> int \<Rightarrow> rat" where
  "scale10 q e = (if 0 \<le> e then q * 10 ^ nat e else q / 10 ^ nat (- e))"

definition unsigned_float :: "string \<Rightarrow> pyfloat option" where
  "unsigned_float s =
     (let l = map lower s in
      if l = ''inf'' \<or> l = ''infinity'' then Some PInf
      else if l = ''nan'' then Some NaN
      else
        (case mantissa s of
           None \<Rightarrow> None
         | Some (ds, fs, rest) \<Rightarrow>
             (case exponent rest of
                None \<Rightarrow> None
              | Some e \<Rightarrow>
                  Some (Fin (scale10 (of_nat (digits_value (ds @ fs)) / 10 ^ length fs) e)))))"

fun negate :: "pyfloat \<Rightarrow> pyfloat" where
  "negate (Fin q) = Fin (- q)"
| "negate PInf = NInf"
| "negate NInf = PInf"
| "negate NaN = NaN"

definition float_of_str :: "string \<Rightarrow> pyfloat option" where
  "float_of_str s =
     (case strip s of
        [] \<Rightarrow> None
      | c # rest \<Rightarrow>
          (if c = CHR ''-'' then map_option negate (unsigned_float rest)
           else if c = CHR ''+'' then unsigned_float rest
           else unsigned_float (c # rest)))"

text \<open>\<^verbatim>\<open>float(rate_value)\<close> on a cell: a float is itself, a string is parsed.\<close>

fun py_float :: "cell \<Rightarrow> pyfloat option" where
  "py_float (Num f) = Some f"
| "py_float (Str s) = float_of_str s"

text \<open>The test both extractors make before converting:
  \<^verbatim>\<open>pd.isna(rate_value) or rate_value == '' or rate_value == 'N/A'\<close>.\<close>

definition null_or_blank :: "cell \<Rightarrow> bool" where
  "null_or_blank v = (isna v \<or> v = Str '''' \<or> v = Str ''N/A'')"

subsection \<open>DataFrames\<close>

text \<open>
  A DataFrame is its column names and its rows, each row the cells in column order.
  \<^verbatim>\<open>row[c]\<close> is the cell under the first column named \<open>c\<close>; a row shorter than the
  header has NaN there, as \<^verbatim>\<open>read_csv\<close> fills it.
\<close>

type_synonym row = "cell list"

record dataframe =
  columns :: "string list"
  rows :: "row list"

definition cell_at :: "string list \<Rightarrow> row \<Rightarrow> string \<Rightarrow> cell" where
  "cell_at cols r c = (case map_of (zip cols r) c of Some v \<Rightarrow> v | None \<Rightarrow> Num NaN)"

text \<open>What the script finds when it opens a CSV file: the file is not there
  (\<^verbatim>\<open>not csv_file.exists()\<close>), \<^verbatim>\<open>read_csv\<close> raises
  \<^verbatim>\<open>EmptyDataError\<close> or \<^verbatim>\<open>ParserError\<close>, or it returns a DataFrame.\<close>

datatype csv_source = NoSuchFile | EmptyDataError | ParserError | Parsed dataframe

subsection \<open>Errors\<close>

text \<open>Every \<^verbatim>\<open>raise\<close> of the script, one constructor for each message of a
  \<^verbatim>\<open>ValueError\<close>. The lists are the ones the messages print.\<close>

datatype reason =
    EmptyCsv
  | EmptyOrMalformed
  | ParseFailure
  | MissingDateColumn
  | NoValidRates "string list" "string list"
  | NoValidHistoricalRates "(string \<times> nat) list"
  | EmptyDataFrame
  | MissingRequiredColumns

datatype error = FileNotFoundError | ValueError reason | RuntimeError

text \<open>The kinds of the specification's error taxonomy, and the kind of each error of
  the script.\<close>

datatype error_kind = NotFound | MalformedInput | NoUsableData | InvalidInput | Unexpected

fun kind_of :: "error \<Rightarrow> error_kind" where
  "kind_of FileNotFoundError = NotFound"
| "kind_of (ValueError EmptyCsv) = MalformedInput"
| "kind_of (ValueError EmptyOrMalformed) = MalformedInput"
| "kind_of (ValueError ParseFailure) = MalformedInput"
| "kind_of (ValueError MissingDateColumn) = MalformedInput"
| "kind_of (ValueError (NoValidRates _ _)) = NoUsableData"
| "kind_of (ValueError (NoValidHistoricalRates _)) = NoUsableData"
| "kind_of (ValueError EmptyDataFrame) = InvalidInput"
| "kind_of (ValueError MissingRequiredColumns) = InvalidInput"
| "kind_of RuntimeError = Unexpected"

section \<open>The daily extractor\<close>

text \<open>A dictionary from currency code to rate is an association list in insertion
  order: \<^verbatim>\<open>d[k] = v\<close> is \<open>AList.update k v d\<close> (a new key goes to the end, a
  known key keeps its place), \<^verbatim>\<open>d.get(k)\<close> is \<open>map_of d k\<close>, and
  \<^verbatim>\<open>not d\<close> is \<open>d = []\<close>.\<close>

type_synonym rate_dict = "(string \<times> pyfloat) list"

record daily_state =
  daily_rates :: rate_dict
  missing_currencies :: "string list"
  invalid_currencies :: "string list"

text \<open>The body of \<^verbatim>\<open>for currency in TARGET_CURRENCIES\<close> in
  \<^verbatim>\<open>parse_daily_rates\<close>; \<open>r\<close> is the first row (\<^verbatim>\<open>.iloc[0]\<close>).\<close>

definition daily_step :: "string list \<Rightarrow> row \<Rightarrow> string \<Rightarrow> daily_state \<Rightarrow> daily_state" where
  "daily_step cols r currency st =
     (if currency \<notin> set cols then
        st\<lparr>missing_currencies := missing_currencies st @ [currency]\<rparr>
      else
        (let rate_value = cell_at cols r currency in
         if null_or_blank rate_value then
           st\<lparr>invalid_currencies := invalid_currencies st @ [currency]\<rparr>
         else
           (case py_float rate_value of
              Some rate_float \<Rightarrow>
                st\<lparr>daily_rates := AList.update currency rate_float (daily_rates st)\<rparr>
            | None \<Rightarrow> st\<lparr>invalid_currencies := invalid_currencies st @ [currency]\<rparr>)))"

definition daily_init :: daily_state where
  "daily_init = \<lparr>daily_rates = [], missing_currencies = [], invalid_currencies = []\<rparr>"

definition daily_loop :: "string list \<Rightarrow> row \<Rightarrow> daily_state" where
  "daily_loop cols r = fold (daily_step cols r) TARGET_CURRENCIES daily_init"

definition parse_daily_rates :: "csv_source \<Rightarrow> error + rate_dict" where
  "parse_daily_rates src =
     (case src of
        NoSuchFile \<Rightarrow> Inl FileNotFoundError
      | EmptyDataError \<Rightarrow> Inl (ValueError EmptyOrMalformed)
      | ParserError \<Rightarrow> Inl (ValueError ParseFailure)
      | Parsed df \<Rightarrow>
          (case rows df of
             [] \<Rightarrow> Inl (ValueError EmptyCsv)
           | r # _ \<Rightarrow>
               (let st = daily_loop (columns df) r in
                if daily_rates st = [] then
                  Inl (ValueError (NoValidRates (missing_currencies st) (invalid_currencies st)))
                else Inr (daily_rates st))))"

section \<open>The historical extractor\<close>

record observation =
  date :: string
  currency :: string
  rate :: pyfloat

text \<open>
  The body of \<^verbatim>\<open>for idx, row in df.iterrows()\<close> in \<^verbatim>\<open>parse_historical_rates\<close>,
  on the pair of \<^verbatim>\<open>historical_data\<close> and \<^verbatim>\<open>valid_count\<close>. The text that
  \<^verbatim>\<open>str(date_value)\<close> gives is Python's affair and no branch depends on it: the
  extractor takes the function \<open>py_str\<close> as it finds it.
\<close>

definition hist_row ::
  "(cell \<Rightarrow> string) \<Rightarrow> string list \<Rightarrow> string \<Rightarrow> row \<Rightarrow>
     observation list \<times> nat \<Rightarrow> observation list \<times> nat" where
  "hist_row py_str cols cur r acc =
     (let rate_value = cell_at cols r cur in
      if null_or_blank rate_value then acc
      else
        (case py_float rate_value of
           None \<Rightarrow> acc
         | Some rate_float \<Rightarrow>
             (let date_value = cell_at cols r ''Date'' in
              if le_zero rate_float then acc
              else
                (fst acc @ [\<lparr>date = py_str date_value, currency = cur, rate = rate_float\<rparr>],
                 Suc (snd acc)))))"

record hist_state =
  historical_data :: "observation list"
  missing_columns :: "string list"
  currencies_found :: "(string \<times> nat) list"

text \<open>The body of \<^verbatim>\<open>for currency in TARGET_CURRENCIES\<close>; \<open>missing_columns\<close> is the
  function's \<^verbatim>\<open>missing_currencies\<close>.\<close>

definition hist_step :: "(cell \<Rightarrow> string) \<Rightarrow> dataframe \<Rightarrow> string \<Rightarrow> hist_state \<Rightarrow> hist_state" where
  "hist_step py_str df cur st =
     (if cur \<notin> set (columns df) then st\<lparr>missing_columns := missing_columns st @ [cur]\<rparr>
      else
        (let res = fold (hist_row py_str (columns df) cur) (rows df) (historical_data st, 0)
         in st\<lparr>historical_data := fst res,
               currencies_found := AList.update cur (snd res) (currencies_found st)\<rparr>))"

definition hist_init :: hist_state where
  "hist_init = \<lparr>historical_data = [], missing_columns = [], currencies_found = []\<rparr>"

definition hist_loop :: "(cell \<Rightarrow> string) \<Rightarrow> dataframe \<Rightarrow> hist_state" where
  "hist_loop py_str df = fold (hist_step py_str df) TARGET_CURRENCIES hist_init"

text \<open>\<^verbatim>\<open>pd.DataFrame(historical_data)\<close>: one row for each dictionary, the keys as
  columns.\<close>

definition DataFrame :: "observation list \<Rightarrow> dataframe" where
  "DataFrame obs =
     \<lparr>columns = [''date'', ''currency'', ''rate''],
      rows = map (\<lambda>ob. [Str (date ob), Str (currency ob), Num (rate ob)]) obs\<rparr>"

definition parse_historical_rates :: "(cell \<Rightarrow> string) \<Rightarrow> csv_source \<Rightarrow> error + dataframe" where
  "parse_historical_rates py_str src =
     (case src of
        NoSuchFile \<Rightarrow> Inl FileNotFoundError
      | EmptyDataError \<Rightarrow> Inl (ValueError EmptyOrMalformed)
      | ParserError \<Rightarrow> Inl (ValueError ParseFailure)
      | Parsed df \<Rightarrow>
          (if rows df = [] then Inl (ValueError EmptyCsv)
           else if ''Date'' \<notin> set (columns df) then Inl (ValueError MissingDateColumn)
           else
             (let st = hist_loop py_str df in
              if historical_data st = [] then
                Inl (ValueError (NoValidHistoricalRates (currencies_found st)))
              else Inr (DataFrame (historical_data st)))))"

section \<open>The mean aggregator\<close>

subsection \<open>Arithmetic on doubles\<close>

text \<open>Rounding of a rational to an integer, half to even.\<close>

definition round_half_even :: "rat \<Rightarrow> int" where
  "round_half_even q =
     (let f = \<lfloor>q\<rfloor>; d = q - of_int f in
      if d < 1 / 2 then f else if 1 / 2 < d then f + 1 else if even f then f else f + 1)"

text \<open>
  \<open>round_double q\<close> is the double nearest to the rational \<open>q\<close>, as IEEE 754 binary64
  rounds the exact result of an operation: 53 bits of significand, ties to even, steps of
  \<open>2\<^sup>-\<^sup>1\<^sup>0\<^sup>7\<^sup>4\<close> below \<open>2\<^sup>-\<^sup>1\<^sup>0\<^sup>2\<^sup>2\<close>, and infinity when the rounded
  magnitude reaches \<open>2\<^sup>1\<^sup>0\<^sup>2\<^sup>4\<close>. \<open>floor_log2 a\<close> is the \<open>e\<close> with
  \<open>2\<^sup>e \<le> a < 2\<^sup>e\<^sup>+\<^sup>1\<close>, for \<open>a > 0\<close>.
\<close>

definition scale2 :: "rat \<Rightarrow> int \<Rightarrow> rat" where
  "scale2 q e = (if 0 \<le> e then q * 2 ^ nat e else q / 2 ^ nat (- e))"

definition floor_log2 :: "rat \<Rightarrow> int" where
  "floor_log2 a =
     (let k = bitlen (fst (quotient_of a)) - bitlen (snd (quotient_of a))
      in if scale2 1 k \<le> a then k else k - 1)"

definition round_double :: "rat \<Rightarrow> pyfloat" where
  "round_double q =
     (if q = 0 then Fin 0
      else
        (let e = max (floor_log2 \<bar>q\<bar> - 52) (- 1074);
             v = scale2 (of_int (round_half_even (scale2 \<bar>q\<bar> (- e)))) e
         in if 2 ^ 1024 \<le> v then (if q < 0 then NInf else PInf)
            else Fin (if q < 0 then - v else v)))"

text \<open>Addition and subtraction of doubles, and division of a double by a positive
  count: the exact result, rounded.\<close>

fun fadd :: "pyfloat \<Rightarrow> pyfloat \<Rightarrow> pyfloat" where
  "fadd (Fin a) (Fin b) = round_double (a + b)"
| "fadd NaN _ = NaN"
| "fadd _ NaN = NaN"
| "fadd PInf NInf = NaN"
| "fadd NInf PInf = NaN"
| "fadd PInf _ = PInf"
| "fadd _ PInf = PInf"
| "fadd NInf _ = NInf"
| "fadd _ NInf = NInf"

definition fsub :: "pyfloat \<Rightarrow> pyfloat \<Rightarrow> pyfloat" where
  "fsub x y = fadd x (negate y)"

fun fdiv_count :: "pyfloat \<Rightarrow> nat \<Rightarrow> pyfloat" where
  "fdiv_count (Fin a) n = round_double (a / of_nat n)"
| "fdiv_count f n = f"

subsection \<open>Grouping and the mean\<close>

text \<open>
  \<^verbatim>\<open>df.groupby('currency')['rate'].mean().to_dict()\<close>. pandas makes one pass over the
  rows and keeps, for each key, a running sum with its compensation term and the number
  of the values that are not NaN. A value \<^verbatim>\<open>val\<close> that is not NaN enters the sum by
  compensated summation:
  \<^verbatim>\<open>y = val - compensation; t = sumx + y; compensation = t - sumx - y; sumx = t\<close>,
  with the compensation set back to zero when it is NaN. A row whose key is missing
  belongs to no group; the mean of a group is the sum divided by the count, NaN when the
  count is zero; the keys come out sorted. A group whose key is a number has no place in
  a \<^verbatim>\<open>Dict[str, float]\<close> and no lookup by currency code finds it: the model leaves
  it out.
\<close>

definition kahan_add :: "pyfloat \<Rightarrow> pyfloat \<times> pyfloat \<Rightarrow> pyfloat \<times> pyfloat" where
  "kahan_add val sc =
     (let y = fsub val (snd sc);
          t = fadd (fst sc) y;
          c = fsub (fsub t (fst sc)) y
      in (t, if c = NaN then Fin 0 else c))"

definition group_step ::
  "string list \<Rightarrow> row \<Rightarrow> (string \<times> (pyfloat \<times> pyfloat) \<times> nat) list \<Rightarrow>
     (string \<times> (pyfloat \<times> pyfloat) \<times> nat) list" where
  "group_step cols r acc =
     (case cell_at cols r ''currency'' of
        Num _ \<Rightarrow> acc
      | Str k \<Rightarrow>
          (let g = (case map_of acc k of Some p \<Rightarrow> p | None \<Rightarrow> ((Fin 0, Fin 0), 0)) in
           case cell_at cols r ''rate'' of
             Num NaN \<Rightarrow> AList.update k g acc
           | Num f \<Rightarrow> AList.update k (kahan_add f (fst g), Suc (snd g)) acc
           | Str _ \<Rightarrow> acc))"

definition group_mean :: "string \<times> (pyfloat \<times> pyfloat) \<times> nat \<Rightarrow> string \<times> pyfloat" where
  "group_mean g =
     (fst g, if snd (snd g) = 0 then NaN else fdiv_count (fst (fst (snd g))) (snd (snd g)))"

definition groupby_mean :: "dataframe \<Rightarrow> rate_dict" where
  "groupby_mean df =
     sort_key fst (map group_mean (fold (group_step (columns df)) (rows df) []))"

fun is_str :: "cell \<Rightarrow> bool" where
  "is_str (Str _) = True"
| "is_str (Num _) = False"

text \<open>
  \<^verbatim>\<open>df.empty\<close> holds when an axis has length zero. A \<^verbatim>\<open>rate\<close> column that
  holds a string is not numeric: \<^verbatim>\<open>mean\<close> raises, and the function's
  \<^verbatim>\<open>except Exception\<close> turns that into a \<^verbatim>\<open>RuntimeError\<close>.
\<close>

definition calculate_mean_rates :: "dataframe \<Rightarrow> error + rate_dict" where
  "calculate_mean_rates df =
     (if rows df = [] \<or> columns df = [] then Inl (ValueError EmptyDataFrame)
      else if ''currency'' \<notin> set (columns df) \<or> ''rate'' \<notin> set (columns df) then
        Inl (ValueError MissingRequiredColumns)
      else if list_ex (\<lambda>r. is_str (cell_at (columns df) r ''rate'')) (rows df) then
        Inl RuntimeError
      else Inr (groupby_mean df))"

section \<open>The report table\<close>

text \<open>The decimal digits of a natural number.\<close>

function show_nat :: "nat \<Rightarrow> string" where
  "show_nat n =
     (if n < 10 then [char_of (48 + n)]
      else show_nat (n div 10) @ [char_of (48 + n mod 10)])"
  by pat_completeness auto
termination
  by (relation "measure (\<lambda>n. n)") auto

declare show_nat.simps [simp del]

definition pad4 :: "string \<Rightarrow> string" where
  "pad4 s = replicate (4 - length s) (CHR ''0'') @ s"

text \<open>\<^verbatim>\<open>f"{x:.4f}"\<close>: the sign, the integer part, a point and four digits, rounded
  half to even; the special values print by name.\<close>

fun format_4f :: "pyfloat \<Rightarrow> string" where
  "format_4f (Fin q) =
     (let n = nat (round_half_even (\<bar>q\<bar> * 10000)) in
      (if q < 0 then ''-'' else []) @ show_nat (n div 10000) @ ''.'' @ pad4 (show_nat (n mod 10000)))"
| "format_4f PInf = ''inf''"
| "format_4f NInf = ''-inf''"
| "format_4f NaN = ''nan''"

text \<open>\<^verbatim>\<open>f"{x:.4f}" if x else "N/A"\<close>, where \<open>x\<close> is \<^verbatim>\<open>d.get(currency)\<close>:
  \<^verbatim>\<open>None\<close> and the float zero are both false.\<close>

definition rate_text :: "pyfloat option \<Rightarrow> string" where
  "rate_text x = (case x of None \<Rightarrow> ''N/A'' | Some f \<Rightarrow> if truthy f then format_4f f else ''N/A'')"

record table_row =
  currency_code :: string
  rate_cell :: string
  mean_historical_rate :: string

text \<open>The loop of \<^verbatim>\<open>create_html_table\<close> that builds \<^verbatim>\<open>table_data\<close>; the HTML is
  pandas' \<^verbatim>\<open>to_html\<close> of these rows inside a fixed page.\<close>

definition table_step :: "rate_dict \<Rightarrow> rate_dict \<Rightarrow> string \<Rightarrow> table_row list \<Rightarrow> table_row list" where
  "table_step daily mean cur acc =
     acc @ [\<lparr>currency_code = cur,
              rate_cell = rate_text (map_of daily cur),
              mean_historical_rate = rate_text (map_of mean cur)\<rparr>]"

definition table_data :: "rate_dict \<Rightarrow> rate_dict \<Rightarrow> table_row list" where
  "table_data daily mean = fold (table_step daily mean) TARGET_CURRENCIES []"

section \<open>Reading the loops cell by cell\<close>

text \<open>What the daily loop stores for one currency: the float of the first-row cell, when
  the column is there and the cell is neither null nor blank and converts.\<close>

definition daily_cell :: "string list \<Rightarrow> row \<Rightarrow> string \<Rightarrow> pyfloat option" where
  "daily_cell cols r c =
     (if c \<in> set cols \<and> \<not> null_or_blank (cell_at cols r c) then py_float (cell_at cols r c)
      else None)"

text \<open>What one row gives the historical loop for one currency: an observation, or
  nothing when the cell is null or blank, does not convert, or is \<open>\<le> 0\<close>.\<close>

definition row_observation ::
  "(cell \<Rightarrow> string) \<Rightarrow> string list \<Rightarrow> string \<Rightarrow> row \<Rightarrow> observation option" where
  "row_observation py_str cols cur r =
     (if null_or_blank (cell_at cols r cur) then None
      else
        (case py_float (cell_at cols r cur) of
           None \<Rightarrow> None
         | Some f \<Rightarrow>
             if le_zero f then None
             else Some \<lparr>date = py_str (cell_at cols r ''Date''), currency = cur, rate = f\<rparr>))"

text \<open>The observations of one currency, in the order of the table's rows; none when the
  table has no column for it.\<close>

definition currency_observations ::
  "(cell \<Rightarrow> string) \<Rightarrow> dataframe \<Rightarrow> string \<Rightarrow> observation list" where
  "currency_observations py_str df cur =
     (if cur \<in> set (columns df) then
        List.map_filter (row_observation py_str (columns df) cur) (rows df)
      else [])"

text \<open>The order the specification describes: the currency loop outermost, in the
  configured order, each currency's observations in row order.\<close>

definition currency_major :: "(cell \<Rightarrow> string) \<Rightarrow> dataframe \<Rightarrow> observation list" where
  "currency_major py_str df = concat (map (currency_observations py_str df) TARGET_CURRENCIES)"

text \<open>The place of a currency code in the configured list.\<close>

definition target_index :: "string \<Rightarrow> nat" where
  "target_index c = length (takeWhile (\<lambda>t. t \<noteq> c) TARGET_CURRENCIES)"

text \<open>The mean as the specification words it, in the arithmetic of the code: the values
  that are not NaN, summed in order from zero, the sum divided by their number; NaN when
  there is none. \<open>compensated_sum s c as\<close> adds the values \<open>as\<close> to the sum \<open>s\<close>
  that carries the compensation \<open>c\<close>.\<close>

fun compensated_sum :: "pyfloat \<Rightarrow> pyfloat \<Rightarrow> pyfloat list \<Rightarrow> pyfloat" where
  "compensated_sum s c [] = s"
| "compensated_sum s c (a # as) =
     (let y = fsub a c; t = fadd s y; c' = fsub (fsub t s) y
      in compensated_sum t (if c' = NaN then Fin 0 else c') as)"

definition kahan_sum :: "pyfloat list \<Rightarrow> pyfloat" where
  "kahan_sum fs = compensated_sum (Fin 0) (Fin 0) fs"

definition skipna_mean :: "pyfloat list \<Rightarrow> pyfloat" where
  "skipna_mean fs =
     (let vs = filter (\<lambda>f. f \<noteq> NaN) fs in
      if vs = [] then NaN else fdiv_count (kahan_sum vs) (length vs))"

definition rates_of :: "string \<Rightarrow> observation list \<Rightarrow> pyfloat list" where
  "rates_of c obs = map rate (filter (\<lambda>ob. currency ob = c) obs)"

text \<open>What one value does to the sum, the compensation and the count of its group.\<close>

definition acc_step ::
  "pyfloat \<Rightarrow> (pyfloat \<times> pyfloat) \<times> nat \<Rightarrow> (pyfloat \<times> pyfloat) \<times> nat" where
  "acc_step f g = (if f = NaN then g else (kahan_add f (fst g), Suc (snd g)))"

section \<open>Example tables\<close>

text \<open>Header \<^verbatim>\<open>USD,SEK,GBP,JPY\<close> with the row \<^verbatim>\<open>1.0850,N/A,0.8600,abc\<close>, as
  \<^verbatim>\<open>read_csv\<close> types it (three columns of floats, \<^verbatim>\<open>N/A\<close> read as NaN, one
  column of text), and with every cell kept as text.\<close>

definition daily_example_2 :: dataframe where
  "daily_example_2 =
     \<lparr>columns = [''USD'', ''SEK'', ''GBP'', ''JPY''],
      rows = [[Num (Fin (217 / 200)), Num NaN, Num (Fin (43 / 50)), Str ''abc'']]\<rparr>"

definition daily_example_2_text :: dataframe where
  "daily_example_2_text =
     \<lparr>columns = [''USD'', ''SEK'', ''GBP'', ''JPY''],
      rows = [[Str ''1.0850'', Str ''N/A'', Str ''0.8600'', Str ''abc'']]\<rparr>"

text \<open>A daily table with no \<^verbatim>\<open>USD\<close> column, a table with a header only, and one
  whose only row is blank.\<close>

definition daily_no_usd :: dataframe where
  "daily_no_usd =
     \<lparr>columns = [''SEK'', ''GBP'', ''JPY''],
      rows = [[Num (Fin (56 / 5)), Num (Fin (43 / 50)), Num (Fin (1573 / 10))]]\<rparr>"

definition header_only :: dataframe where
  "header_only = \<lparr>columns = [''USD'', ''SEK'', ''GBP'', ''JPY''], rows = []\<rparr>"

definition daily_blank :: dataframe where
  "daily_blank =
     \<lparr>columns = [''USD'', ''SEK'', ''GBP'', ''JPY''],
      rows = [[Num NaN, Str ''N/A'', Str [], Str ''abc'']]\<rparr>"

text \<open>A historical table with every currency column and no \<^verbatim>\<open>Date\<close> column.\<close>

definition hist_no_date :: dataframe where
  "hist_no_date =
     \<lparr>columns = [''USD'', ''SEK'', ''GBP'', ''JPY''],
      rows = [[Num (Fin (27 / 25)), Num (Fin (56 / 5)), Num (Fin (43 / 50)), Num (Fin (1573 / 10))]]\<rparr>"

text \<open>A reading of \<^verbatim>\<open>str\<close> for the examples: a string is itself, a missing date
  prints as \<^verbatim>\<open>nan\<close>.\<close>

definition str_example :: "cell \<Rightarrow> string" where
  "str_example v = (case v of Str s \<Rightarrow> s | Num _ \<Rightarrow> ''nan'')"

text \<open>A historical table of two dates with \<^verbatim>\<open>USD\<close> 1.08 and 1.10 and
  \<^verbatim>\<open>SEK\<close> -0.5 and 2.0, and the observations the extractor draws from it.\<close>

definition hist_example_4 :: dataframe where
  "hist_example_4 =
     \<lparr>columns = [''Date'', ''USD'', ''SEK''],
      rows = [[Str ''2024-01-01'', Num (Fin (27 / 25)), Num (Fin (- (1 / 2)))],
              [Str ''2024-01-02'', Num (Fin (11 / 10)), Num (Fin 2)]]\<rparr>"

definition obs_example_4 :: "observation list" where
  "obs_example_4 =
     [\<lparr>date = ''2024-01-01'', currency = ''USD'', rate = Fin (27 / 25)\<rparr>,
      \<lparr>date = ''2024-01-02'', currency = ''USD'', rate = Fin (11 / 10)\<rparr>,
      \<lparr>date = ''2024-01-02'', currency = ''SEK'', rate = Fin 2\<rparr>]"

text \<open>A daily table whose \<^verbatim>\<open>USD\<close> cell is 0 and whose \<^verbatim>\<open>SEK\<close> cell is -0.5.\<close>

definition daily_zero :: dataframe where
  "daily_zero =
     \<lparr>columns = [''USD'', ''SEK''], rows = [[Num (Fin 0), Num (Fin (- (1 / 2)))]]\<rparr>"

text \<open>A historical table whose \<^verbatim>\<open>USD\<close> column is text and spells NaN in capitals on
  the first date.\<close>

definition hist_nan_text :: dataframe where
  "hist_nan_text =
     \<lparr>columns = [''Date'', ''USD''],
      rows = [[Str ''2024-01-01'', Str ''NAN''], [Str ''2024-01-02'', Str ''abc'']]\<rparr>"

text \<open>A historical table of two dates on which both \<^verbatim>\<open>USD\<close> and \<^verbatim>\<open>SEK\<close> have a
  rate, and its observations read currency by currency.\<close>

definition hist_two_dates :: dataframe where
  "hist_two_dates =
     \<lparr>columns = [''Date'', ''USD'', ''SEK''],
      rows = [[Str ''2024-01-01'', Num (Fin (27 / 25)), Num (Fin (56 / 5))],
              [Str ''2024-01-02'', Num (Fin (11 / 10)), Num (Fin (113 / 10))]]\<rparr>"

definition obs_two_dates :: "observation list" where
  "obs_two_dates =
     [\<lparr>date = ''2024-01-01'', currency = ''USD'', rate = Fin (27 / 25)\<rparr>,
      \<lparr>date = ''2024-01-02'', currency = ''USD'', rate = Fin (11 / 10)\<rparr>,
      \<lparr>date = ''2024-01-01'', currency = ''SEK'', rate = Fin (56 / 5)\<rparr>,
      \<lparr>date = ''2024-01-02'', currency = ''SEK'', rate = Fin (113 / 10)\<rparr>]"






section \<open>The daily extractor: what the loop stores\<close>

lemma daily_step_get:
  "map_of (daily_rates (daily_step cols r c st)) k =
     (if k = c \<and> daily_cell cols r c \<noteq> None then daily_cell cols r c
      else map_of (daily_rates st) k)"
  by (auto simp: daily_step_def daily_cell_def Let_def update_conv' split: option.splits)

lemma daily_fold_get:
  "map_of (daily_rates (fold (daily_step cols r) cs st)) k =
     (if k \<in> set cs \<and> daily_cell cols r k \<noteq> None then daily_cell cols r k
      else map_of (daily_rates st) k)"
proof (induction cs arbitrary: st)
  case Nil
  show ?case by simp
next
  case (Cons c cs)
  show ?case by (auto simp: Cons.IH daily_step_get)
qed

lemma daily_loop_get:
  "map_of (daily_rates (daily_loop cols r)) k =
     (if k \<in> set TARGET_CURRENCIES then daily_cell cols r k else None)"
  by (simp add: daily_loop_def daily_fold_get daily_init_def)

lemma parse_daily_Parsed:
  "parse_daily_rates (Parsed df) =
     (case rows df of
        [] \<Rightarrow> Inl (ValueError EmptyCsv)
      | r # rs \<Rightarrow>
          (if daily_rates (daily_loop (columns df) r) = [] then
             Inl (ValueError (NoValidRates (missing_currencies (daily_loop (columns df) r))
                                           (invalid_currencies (daily_loop (columns df) r))))
           else Inr (daily_rates (daily_loop (columns df) r))))"
  by (simp add: parse_daily_rates_def Let_def split: list.splits)

lemma parse_daily_Inr:
  "parse_daily_rates (Parsed df) = Inr m \<Longrightarrow> rows df = r # rs \<Longrightarrow>
     m = daily_rates (daily_loop (columns df) r)"
  by (simp add: parse_daily_Parsed split: if_splits)

text \<open>
  C5. On a daily table that parsed, the extractor fails with MalformedInput exactly when
  the table has no data row, and with NoUsableData exactly when there is a first row and
  the map is empty after the loop over the target currencies. A missing column is not
  fatal: with a data row, a target currency \<open>c\<close> that has no column and a target currency
  \<open>c'\<close> whose first-row cell converts, the extractor returns a map that holds \<open>c'\<close>
  and not \<open>c\<close>.
\<close>

theorem daily_error_boundary:
  "((\<exists>e. parse_daily_rates (Parsed df) = Inl e \<and> kind_of e = MalformedInput) \<longleftrightarrow> rows df = []) \<and>
   ((\<exists>e. parse_daily_rates (Parsed df) = Inl e \<and> kind_of e = NoUsableData) \<longleftrightarrow>
      (\<exists>r rs. rows df = r # rs \<and> daily_rates (daily_loop (columns df) r) = [])) \<and>
   (rows df = r # rs \<and> c \<in> set TARGET_CURRENCIES \<and> c \<notin> set (columns df) \<and>
    c' \<in> set TARGET_CURRENCIES \<and> c' \<in> set (columns df) \<and>
    \<not> null_or_blank (cell_at (columns df) r c') \<and> py_float (cell_at (columns df) r c') = Some x
    \<longrightarrow> (\<exists>m. parse_daily_rates (Parsed df) = Inr m \<and> map_of m c = None \<and> map_of m c' = Some x))"
proof (intro conjI impI)
  show "(\<exists>e. parse_daily_rates (Parsed df) = Inl e \<and> kind_of e = MalformedInput) \<longleftrightarrow> rows df = []"
    by (auto simp: parse_daily_Parsed split: list.splits)
next
  show "(\<exists>e. parse_daily_rates (Parsed df) = Inl e \<and> kind_of e = NoUsableData) \<longleftrightarrow>
      (\<exists>r rs. rows df = r # rs \<and> daily_rates (daily_loop (columns df) r) = [])"
    by (auto simp: parse_daily_Parsed split: list.splits)
next
  assume a: "rows df = r # rs \<and> c \<in> set TARGET_CURRENCIES \<and> c \<notin> set (columns df) \<and>
    c' \<in> set TARGET_CURRENCIES \<and> c' \<in> set (columns df) \<and>
    \<not> null_or_blank (cell_at (columns df) r c') \<and> py_float (cell_at (columns df) r c') = Some x"
  let ?m = "daily_rates (daily_loop (columns df) r)"
  from a have c': "map_of ?m c' = Some x"
    by (simp add: daily_loop_get daily_cell_def)
  from a have c: "map_of ?m c = None"
    by (simp add: daily_loop_get daily_cell_def)
  from c' have ne: "?m \<noteq> []" by auto
  from a ne have "parse_daily_rates (Parsed df) = Inr ?m"
    by (simp add: parse_daily_Parsed)
  with c c' show "\<exists>m. parse_daily_rates (Parsed df) = Inr m \<and> map_of m c = None \<and> map_of m c' = Some x"
    by blast
qed

theorem daily_error_boundary_witness:
  "(\<exists>e. parse_daily_rates (Parsed header_only) = Inl e \<and> kind_of e = MalformedInput) \<and>
   (\<exists>e. parse_daily_rates (Parsed daily_blank) = Inl e \<and> kind_of e = NoUsableData) \<and>
   (\<exists>m. parse_daily_rates (Parsed daily_no_usd) = Inr m \<and> map_of m ''USD'' = None \<and>
        map_of m ''SEK'' = Some (Fin (56 / 5)))"
proof -
  let ?r = "[Num (Fin (56 / 5)), Num (Fin (43 / 50)), Num (Fin (1573 / 10))]"
  let ?b = "[Num NaN, Str ''N/A'', Str [], Str ''abc'']"
  have "rows header_only = []"
    by (simp add: header_only_def)
  with daily_error_boundary [of header_only]
  have a: "\<exists>e. parse_daily_rates (Parsed header_only) = Inl e \<and> kind_of e = MalformedInput"
    by blast
  have "daily_rates (daily_loop (columns daily_blank) ?b) = []"
    by code_simp
  moreover have "rows daily_blank = ?b # []"
    by (simp add: daily_blank_def)
  ultimately have "\<exists>r rs. rows daily_blank = r # rs \<and>
      daily_rates (daily_loop (columns daily_blank) r) = []"
    by blast
  with daily_error_boundary [of daily_blank]
  have b: "\<exists>e. parse_daily_rates (Parsed daily_blank) = Inl e \<and> kind_of e = NoUsableData"
    by blast
  have h: "rows daily_no_usd = ?r # [] \<and> ''USD'' \<in> set TARGET_CURRENCIES \<and>
     ''USD'' \<notin> set (columns daily_no_usd) \<and> ''SEK'' \<in> set TARGET_CURRENCIES \<and>
     ''SEK'' \<in> set (columns daily_no_usd) \<and>
     \<not> null_or_blank (cell_at (columns daily_no_usd) ?r ''SEK'') \<and>
     py_float (cell_at (columns daily_no_usd) ?r ''SEK'') = Some (Fin (56 / 5))"
    by (simp add: daily_no_usd_def TARGET_CURRENCIES_def cell_at_def null_or_blank_def)
  from daily_error_boundary [of daily_no_usd ?r "[]" "''USD''" "''SEK''" "Fin (56 / 5)"] h
  have "\<exists>m. parse_daily_rates (Parsed daily_no_usd) = Inr m \<and> map_of m ''USD'' = None \<and>
        map_of m ''SEK'' = Some (Fin (56 / 5))"
    by blast
  with a b show ?thesis by blast
qed

section \<open>Conversions used by the examples\<close>

lemma float_of_str_1_0850: "float_of_str ''1.0850'' = Some (Fin (217 / 200))"
proof -
  have s: "strip ''1.0850'' = ''1.0850''" by code_simp
  have l: "map lower ''1.0850'' = ''1.0850''" by code_simp
  have m: "mantissa ''1.0850'' = Some ([1], [0, 8, 5, 0], [])" by code_simp
  have e: "exponent [] = Some 0" by code_simp
  show ?thesis
    by (simp add: float_of_str_def s unsigned_float_def l m e scale10_def digits_value_def)
qed

lemma float_of_str_0_8600: "float_of_str ''0.8600'' = Some (Fin (43 / 50))"
proof -
  have s: "strip ''0.8600'' = ''0.8600''" by code_simp
  have l: "map lower ''0.8600'' = ''0.8600''" by code_simp
  have m: "mantissa ''0.8600'' = Some ([0], [8, 6, 0, 0], [])" by code_simp
  have e: "exponent [] = Some 0" by code_simp
  show ?thesis
    by (simp add: float_of_str_def s unsigned_float_def l m e scale10_def digits_value_def)
qed

lemma float_of_str_abc: "float_of_str ''abc'' = None"
  by code_simp

lemma float_of_str_NAN: "float_of_str ''NAN'' = Some NaN"
  by code_simp

lemmas daily_eval =
  parse_daily_Parsed daily_loop_def daily_init_def TARGET_CURRENCIES_def daily_step_def
  cell_at_def null_or_blank_def

text \<open>
  C6. In the map the daily extractor returns, a currency whose first-row cell is null or
  blank (NaN, the empty string or \<^verbatim>\<open>N/A\<close>) or does not convert to a float has no
  entry. The table with header \<^verbatim>\<open>USD,SEK,GBP,JPY\<close> and row
  \<^verbatim>\<open>1.0850,N/A,0.8600,abc\<close> gives exactly USD 1.0850 and GBP 0.8600, whether the cells
  arrive typed or as text.
\<close>

theorem daily_skip:
  "(parse_daily_rates (Parsed df) = Inr m \<and> rows df = r # rs \<and>
    (null_or_blank (cell_at (columns df) r c) \<or> py_float (cell_at (columns df) r c) = None)
    \<longrightarrow> map_of m c = None \<and> c \<notin> fst ` set m) \<and>
   parse_daily_rates (Parsed daily_example_2) =
     Inr [(''USD'', Fin (217 / 200)), (''GBP'', Fin (43 / 50))] \<and>
   parse_daily_rates (Parsed daily_example_2_text) =
     Inr [(''USD'', Fin (217 / 200)), (''GBP'', Fin (43 / 50))]"
proof (intro conjI impI)
  assume a: "parse_daily_rates (Parsed df) = Inr m \<and> rows df = r # rs \<and>
    (null_or_blank (cell_at (columns df) r c) \<or> py_float (cell_at (columns df) r c) = None)"
  then have m: "m = daily_rates (daily_loop (columns df) r)"
    by (simp add: parse_daily_Inr)
  from a have "daily_cell (columns df) r c = None"
    by (auto simp: daily_cell_def)
  then show "map_of m c = None"
    by (simp add: m daily_loop_get)
  then show "c \<notin> fst ` set m"
    by (simp add: map_of_eq_None_iff)
next
  show "parse_daily_rates (Parsed daily_example_2) =
     Inr [(''USD'', Fin (217 / 200)), (''GBP'', Fin (43 / 50))]"
    by (simp add: daily_eval daily_example_2_def float_of_str_abc)
next
  show "parse_daily_rates (Parsed daily_example_2_text) =
     Inr [(''USD'', Fin (217 / 200)), (''GBP'', Fin (43 / 50))]"
    by (simp add: daily_eval daily_example_2_text_def float_of_str_1_0850 float_of_str_0_8600
        float_of_str_abc)
qed

theorem daily_skip_witness:
  "null_or_blank (cell_at (columns daily_example_2_text)
      [Str ''1.0850'', Str ''N/A'', Str ''0.8600'', Str ''abc''] ''SEK'') \<and>
   py_float (cell_at (columns daily_example_2_text)
      [Str ''1.0850'', Str ''N/A'', Str ''0.8600'', Str ''abc''] ''JPY'') = None \<and>
   map_of [(''USD'', Fin (217 / 200)), (''GBP'', Fin (43 / 50))] ''SEK'' = None \<and>
   map_of [(''USD'', Fin (217 / 200)), (''GBP'', Fin (43 / 50))] ''JPY'' = None"
proof -
  let ?r = "[Str ''1.0850'', Str ''N/A'', Str ''0.8600'', Str ''abc'']"
  let ?m = "[(''USD'', Fin (217 / 200)), (''GBP'', Fin (43 / 50))]"
  have p: "parse_daily_rates (Parsed daily_example_2_text) = Inr ?m"
    by (simp add: daily_eval daily_example_2_text_def float_of_str_1_0850 float_of_str_0_8600
        float_of_str_abc)
  have r: "rows daily_example_2_text = ?r # []"
    by (simp add: daily_example_2_text_def)
  have s: "null_or_blank (cell_at (columns daily_example_2_text) ?r ''SEK'')"
    by (simp add: daily_example_2_text_def cell_at_def null_or_blank_def)
  have j: "py_float (cell_at (columns daily_example_2_text) ?r ''JPY'') = None"
    by (simp add: daily_example_2_text_def cell_at_def float_of_str_abc)
  from daily_skip [of daily_example_2_text ?m ?r "[]" "''SEK''"] p r s
  have 1: "map_of ?m ''SEK'' = None" by blast
  from daily_skip [of daily_example_2_text ?m ?r "[]" "''JPY''"] p r j
  have 2: "map_of ?m ''JPY'' = None" by blast
  from s j 1 2 show ?thesis by blast
qed

section \<open>The historical extractor: the checks before the loop\<close>

lemma parse_historical_Parsed:
  "parse_historical_rates py_str (Parsed df) =
     (if rows df = [] then Inl (ValueError EmptyCsv)
      else if ''Date'' \<notin> set (columns df) then Inl (ValueError MissingDateColumn)
      else if historical_data (hist_loop py_str df) = [] then
        Inl (ValueError (NoValidHistoricalRates (currencies_found (hist_loop py_str df))))
      else Inr (DataFrame (historical_data (hist_loop py_str df))))"
  by (simp add: parse_historical_rates_def Let_def)

text \<open>
  C4. A historical table that parsed and has a data row but no \<^verbatim>\<open>Date\<close> column makes
  the extractor fail with the \<^verbatim>\<open>ValueError\<close> for the missing column, of kind
  MalformedInput, whatever its other columns are.
\<close>

theorem historical_missing_date:
  "rows df \<noteq> [] \<Longrightarrow> ''Date'' \<notin> set (columns df) \<Longrightarrow>
     parse_historical_rates py_str (Parsed df) = Inl (ValueError MissingDateColumn) \<and>
     kind_of (ValueError MissingDateColumn) = MalformedInput"
  by (simp add: parse_historical_Parsed)

theorem historical_missing_date_witness:
  "rows hist_no_date \<noteq> [] \<and> ''Date'' \<notin> set (columns hist_no_date) \<and>
   set TARGET_CURRENCIES \<subseteq> set (columns hist_no_date) \<and>
   parse_historical_rates str_example (Parsed hist_no_date) = Inl (ValueError MissingDateColumn)"
proof -
  have r: "rows hist_no_date \<noteq> []"
    by (simp add: hist_no_date_def)
  have d: "''Date'' \<notin> set (columns hist_no_date)"
    by (simp add: hist_no_date_def)
  have t: "set TARGET_CURRENCIES \<subseteq> set (columns hist_no_date)"
    by (simp add: hist_no_date_def TARGET_CURRENCIES_def)
  from historical_missing_date [OF r d, of str_example] r d t show ?thesis
    by blast
qed

section \<open>The historical extractor: what the loops collect\<close>

lemma hist_row_eq:
  "hist_row py_str cols cur r acc =
     (case row_observation py_str cols cur r of
        None \<Rightarrow> acc
      | Some ob \<Rightarrow> (fst acc @ [ob], Suc (snd acc)))"
  by (simp add: hist_row_def row_observation_def Let_def split: option.splits)

lemma in_set_map_filter:
  "y \<in> set (List.map_filter f xs) \<longleftrightarrow> (\<exists>x. x \<in> set xs \<and> f x = Some y)"
  by (induction xs) (auto split: option.splits)

lemma map_filter_append:
  "List.map_filter f (xs @ ys) = List.map_filter f xs @ List.map_filter f ys"
  by (induction xs) (auto split: option.splits)

lemma map_const_replicate:
  "(\<And>x. x \<in> set xs \<Longrightarrow> f x = k) \<Longrightarrow> map f xs = replicate (length xs) k"
  by (induction xs) auto

lemma fold_hist_row:
  "fold (hist_row py_str cols cur) rs acc =
     (fst acc @ List.map_filter (row_observation py_str cols cur) rs,
      snd acc + length (List.map_filter (row_observation py_str cols cur) rs))"
proof (induction rs arbitrary: acc)
  case Nil
  show ?case by simp
next
  case (Cons r rs)
  have "fold (hist_row py_str cols cur) (r # rs) acc =
          fold (hist_row py_str cols cur) rs (hist_row py_str cols cur r acc)"
    by simp
  also have "\<dots> =
      (fst (hist_row py_str cols cur r acc) @ List.map_filter (row_observation py_str cols cur) rs,
       snd (hist_row py_str cols cur r acc) +
         length (List.map_filter (row_observation py_str cols cur) rs))"
    by (rule Cons.IH)
  also have "\<dots> =
      (fst acc @ List.map_filter (row_observation py_str cols cur) (r # rs),
       snd acc + length (List.map_filter (row_observation py_str cols cur) (r # rs)))"
    by (cases "row_observation py_str cols cur r") (simp_all add: hist_row_eq)
  finally show ?case .
qed

lemma hist_step_data:
  "historical_data (hist_step py_str df cur st) =
     historical_data st @ currency_observations py_str df cur"
  by (simp add: hist_step_def currency_observations_def fold_hist_row Let_def)

lemma hist_fold_data:
  "historical_data (fold (hist_step py_str df) cs st) =
     historical_data st @ concat (map (currency_observations py_str df) cs)"
  by (induction cs arbitrary: st) (simp_all add: hist_step_data)

lemma hist_loop_data:
  "historical_data (hist_loop py_str df) = currency_major py_str df"
  by (simp add: hist_loop_def hist_fold_data hist_init_def currency_major_def)

lemma row_observation_currency:
  "row_observation py_str cols cur r = Some ob \<Longrightarrow> currency ob = cur"
  by (auto simp: row_observation_def split: if_splits option.splits)

lemma row_observation_rate:
  "row_observation py_str cols cur r = Some ob \<Longrightarrow>
     py_float (cell_at cols r cur) = Some (rate ob) \<and> \<not> le_zero (rate ob) \<and>
     \<not> null_or_blank (cell_at cols r cur)"
  by (auto simp: row_observation_def split: if_splits option.splits)

lemma currency_observations_currency:
  "ob \<in> set (currency_observations py_str df cur) \<Longrightarrow> currency ob = cur"
  by (auto simp: currency_observations_def in_set_map_filter row_observation_currency
      split: if_splits)

lemma currency_observations_rate:
  "ob \<in> set (currency_observations py_str df cur) \<Longrightarrow> \<not> le_zero (rate ob)"
  by (auto simp: currency_observations_def in_set_map_filter split: if_splits
      dest: row_observation_rate)

lemma parse_historical_Inr:
  "parse_historical_rates py_str src = Inr out \<Longrightarrow>
     \<exists>df. src = Parsed df \<and> rows df \<noteq> [] \<and> ''Date'' \<in> set (columns df) \<and>
          currency_major py_str df \<noteq> [] \<and> out = DataFrame (currency_major py_str df)"
  by (cases src)
     (auto simp: parse_historical_rates_def Let_def hist_loop_data split: if_splits)

lemma target_index_values:
  "target_index ''USD'' = 0" "target_index ''SEK'' = 1"
  "target_index ''GBP'' = 2" "target_index ''JPY'' = 3"
  by (simp_all add: target_index_def TARGET_CURRENCIES_def)

lemma currency_major_sorted:
  "sorted (map (\<lambda>ob. target_index (currency ob)) (currency_major py_str df))"
proof -
  have blk: "\<And>c. map (\<lambda>ob. target_index (currency ob)) (currency_observations py_str df c) =
      replicate (length (currency_observations py_str df c)) (target_index c)"
    by (rule map_const_replicate) (simp add: currency_observations_currency)
  show ?thesis
    by (auto simp: currency_major_def TARGET_CURRENCIES_def blk sorted_append
        target_index_values)
qed

text \<open>
  C7. When the historical extractor succeeds, the rows of the frame it returns are the
  observations with the currency loop outermost: every observation of \<^verbatim>\<open>USD\<close>, in
  the order of the input rows, then every observation of \<^verbatim>\<open>SEK\<close>, then of
  \<^verbatim>\<open>GBP\<close>, then of \<^verbatim>\<open>JPY\<close>, the order of \<open>TARGET_CURRENCIES\<close>; a currency
  without a column has none. Along the rows the place of the currency in the configured
  list never decreases.
\<close>

theorem historical_order:
  "parse_historical_rates py_str (Parsed df) = Inr out \<longrightarrow>
     columns out = [''date'', ''currency'', ''rate''] \<and>
     rows out =
       map (\<lambda>ob. [Str (date ob), Str (currency ob), Num (rate ob)])
         (currency_observations py_str df ''USD'' @ currency_observations py_str df ''SEK'' @
          currency_observations py_str df ''GBP'' @ currency_observations py_str df ''JPY'') \<and>
     rows out =
       map (\<lambda>ob. [Str (date ob), Str (currency ob), Num (rate ob)]) (currency_major py_str df) \<and>
     out = DataFrame (currency_major py_str df) \<and>
     sorted (map (\<lambda>r. target_index (case cell_at (columns out) r ''currency'' of
                                       Str c \<Rightarrow> c | Num _ \<Rightarrow> [])) (rows out))"
proof
  assume a: "parse_historical_rates py_str (Parsed df) = Inr out"
  from parse_historical_Inr [OF a] have out: "out = DataFrame (currency_major py_str df)"
    by auto
  have m: "currency_major py_str df =
       currency_observations py_str df ''USD'' @ currency_observations py_str df ''SEK'' @
       currency_observations py_str df ''GBP'' @ currency_observations py_str df ''JPY''"
    by (simp add: currency_major_def TARGET_CURRENCIES_def)
  have c: "columns out = [''date'', ''currency'', ''rate'']"
    by (simp add: out DataFrame_def)
  have r: "rows out =
      map (\<lambda>ob. [Str (date ob), Str (currency ob), Num (rate ob)]) (currency_major py_str df)"
    by (simp add: out DataFrame_def)
  have "map (\<lambda>r. target_index (case cell_at (columns out) r ''currency'' of
                                  Str c \<Rightarrow> c | Num _ \<Rightarrow> [])) (rows out) =
        map (\<lambda>ob. target_index (currency ob)) (currency_major py_str df)"
    by (simp add: r c cell_at_def comp_def)
  then have s: "sorted (map (\<lambda>r. target_index (case cell_at (columns out) r ''currency'' of
                                       Str c \<Rightarrow> c | Num _ \<Rightarrow> [])) (rows out))"
    by (simp only: currency_major_sorted)
  from c r m out s show "columns out = [''date'', ''currency'', ''rate''] \<and>
     rows out =
       map (\<lambda>ob. [Str (date ob), Str (currency ob), Num (rate ob)])
         (currency_observations py_str df ''USD'' @ currency_observations py_str df ''SEK'' @
          currency_observations py_str df ''GBP'' @ currency_observations py_str df ''JPY'') \<and>
     rows out =
       map (\<lambda>ob. [Str (date ob), Str (currency ob), Num (rate ob)]) (currency_major py_str df) \<and>
     out = DataFrame (currency_major py_str df) \<and>
     sorted (map (\<lambda>r. target_index (case cell_at (columns out) r ''currency'' of
                                       Str c \<Rightarrow> c | Num _ \<Rightarrow> [])) (rows out))"
    by simp
qed

section \<open>The mean aggregator: groups, sums and counts\<close>

lemma cell_at_DataFrame:
  "cell_at (columns (DataFrame obs)) [d, c, r] ''currency'' = c"
  "cell_at (columns (DataFrame obs)) [d, c, r] ''rate'' = r"
  by (simp_all add: DataFrame_def cell_at_def)

lemma group_step_obs:
  "group_step (columns (DataFrame obs')) [Str (date ob), Str (currency ob), Num (rate ob)] acc =
     AList.update (currency ob)
       (acc_step (rate ob)
          (case map_of acc (currency ob) of Some p \<Rightarrow> p | None \<Rightarrow> ((Fin 0, Fin 0), 0)))
       acc"
  by (cases "rate ob") (simp_all add: group_step_def cell_at_DataFrame acc_step_def Let_def)

lemma group_step_distinct:
  "distinct (map fst acc) \<Longrightarrow> distinct (map fst (group_step cols r acc))"
  by (auto simp: group_step_def Let_def distinct_update split: cell.splits pyfloat.splits)

lemma group_fold_distinct:
  "distinct (map fst acc) \<Longrightarrow> distinct (map fst (fold (group_step cols) rs acc))"
  by (induction rs arbitrary: acc) (simp_all add: group_step_distinct)

lemma group_fold_obs:
  "map_of (fold (group_step (columns (DataFrame obs')))
             (map (\<lambda>ob. [Str (date ob), Str (currency ob), Num (rate ob)]) obs) acc) k =
     (if rates_of k obs = [] then map_of acc k
      else Some (fold acc_step (rates_of k obs)
                   (case map_of acc k of Some p \<Rightarrow> p | None \<Rightarrow> ((Fin 0, Fin 0), 0))))"
proof (induction obs arbitrary: acc)
  case Nil
  show ?case by (simp add: rates_of_def)
next
  case (Cons ob obs)
  show ?case
    by (simp add: Cons.IH group_step_obs update_conv' rates_of_def)
qed

lemma fold_acc_step:
  "fold acc_step fs g =
     (fold kahan_add (filter (\<lambda>f. f \<noteq> NaN) fs) (fst g),
      snd g + length (filter (\<lambda>f. f \<noteq> NaN) fs))"
  by (induction fs arbitrary: g) (simp_all add: acc_step_def)

lemma fold_kahan_add:
  "fst (fold kahan_add fs sc) = compensated_sum (fst sc) (snd sc) fs"
  by (induction fs arbitrary: sc) (simp_all add: kahan_add_def Let_def)

lemma map_of_insort_key_apply:
  "fst p \<notin> fst ` set xs \<Longrightarrow>
     map_of (insort_key fst p xs) k = (if k = fst p then Some (snd p) else map_of xs k)"
  by (induction xs) auto

lemma map_of_insort_key:
  "fst p \<notin> fst ` set xs \<Longrightarrow> map_of (insort_key fst p xs) = (map_of xs)(fst p \<mapsto> snd p)"
  by (simp add: fun_eq_iff map_of_insort_key_apply)

lemma map_of_sort_key:
  "distinct (map fst xs) \<Longrightarrow> map_of (sort_key fst xs) = map_of xs"
proof (induction xs)
  case Nil
  show ?case by simp
next
  case (Cons x xs)
  then have "fst x \<notin> fst ` set (sort_key fst xs)"
    by simp
  then have "map_of (insort_key fst x (sort_key fst xs)) = (map_of (sort_key fst xs))(fst x \<mapsto> snd x)"
    by (rule map_of_insort_key)
  with Cons show ?case by (simp add: sort_key_simps)
qed

lemma map_of_group_mean:
  "map_of (map group_mean acc) k =
     map_option (\<lambda>g. if snd g = 0 then NaN else fdiv_count (fst (fst g)) (snd g)) (map_of acc k)"
  by (induction acc) (auto simp: group_mean_def)

lemma groupby_mean_DataFrame:
  "map_of (groupby_mean (DataFrame obs)) c =
     (if rates_of c obs = [] then None else Some (skipna_mean (rates_of c obs)))"
proof -
  let ?acc = "fold (group_step (columns (DataFrame obs))) (rows (DataFrame obs)) []"
  have d: "distinct (map fst (map group_mean ?acc))"
    using group_fold_distinct [of "[]" "columns (DataFrame obs)" "rows (DataFrame obs)"]
    by (simp add: group_mean_def comp_def)
  have "map_of (groupby_mean (DataFrame obs)) c = map_of (map group_mean ?acc) c"
    by (simp add: groupby_mean_def map_of_sort_key [OF d])
  also have "\<dots> = map_option (\<lambda>g. if snd g = 0 then NaN else fdiv_count (fst (fst g)) (snd g))
                     (map_of ?acc c)"
    by (rule map_of_group_mean)
  also have "map_of ?acc c =
      (if rates_of c obs = [] then None
       else Some (fold acc_step (rates_of c obs) ((Fin 0, Fin 0), 0)))"
    using group_fold_obs [of obs obs "[]" c] by (simp add: DataFrame_def)
  finally show ?thesis
    by (simp add: fold_acc_step fold_kahan_add skipna_mean_def kahan_sum_def Let_def)
qed

lemma calculate_mean_rates_DataFrame:
  "calculate_mean_rates (DataFrame obs) =
     (if obs = [] then Inl (ValueError EmptyDataFrame) else Inr (groupby_mean (DataFrame obs)))"
proof -
  have "\<not> list_ex (\<lambda>r. is_str (cell_at (columns (DataFrame obs)) r ''rate'')) (rows (DataFrame obs))"
    by (simp add: list_ex_iff DataFrame_def cell_at_def)
  then show ?thesis
    by (simp add: calculate_mean_rates_def) (simp add: DataFrame_def)
qed

section \<open>Rounding where it is exact\<close>

lemma scale2_powi: "scale2 q e = q * 2 powi e"
  by (simp add: scale2_def power_int_def field_simps)

lemma round_half_even_of_int: "round_half_even (of_int k) = k"
  by (simp add: round_half_even_def)

lemma floor_log2_pow2: "floor_log2 (2 ^ n) = int n"
proof -
  have q: "quotient_of ((2::rat) ^ n) = (2 ^ n, 1)"
    using quotient_of_int [of "2 ^ n"] by (simp add: Rat.of_int_def)
  have one: "bitlen 1 = 1"
    by code_simp
  then have b: "bitlen (2 ^ n) = int n + 1"
    using bitlen_pow2 [of 1 n] by simp
  show ?thesis
    by (simp add: floor_log2_def q b one scale2_powi Let_def)
qed

lemma round_double_pow2: "round_double (2 ^ n) = (if n < 1024 then Fin (2 ^ n) else PInf)"
proof -
  have e: "max (floor_log2 \<bar>(2::rat) ^ n\<bar> - 52) (- 1074) = int n - 52"
    by (simp add: floor_log2_pow2)
  have p: "\<And>a b. (2::rat) powi a * 2 powi b = 2 powi (a + b)"
    by (simp add: power_int_add)
  have m: "scale2 \<bar>(2::rat) ^ n\<bar> (- (int n - 52)) = of_int (2 ^ 52)"
  proof -
    have "scale2 \<bar>(2::rat) ^ n\<bar> (- (int n - 52)) = 2 powi (int n) * 2 powi (- (int n - 52))"
      by (simp add: scale2_powi)
    also have "\<dots> = (2::rat) powi (int n + (- (int n - 52)))"
      by (rule p)
    also have "int n + (- (int n - 52)) = 52"
      by simp
    finally show ?thesis by simp
  qed
  have v: "scale2 (of_int (2 ^ 52)) (int n - 52) = (2::rat) ^ n"
  proof -
    have "scale2 (of_int (2 ^ 52)) (int n - 52) = (2::rat) powi 52 * 2 powi (int n - 52)"
      by (simp add: scale2_powi)
    also have "\<dots> = (2::rat) powi (52 + (int n - 52))"
      by (rule p)
    also have "52 + (int n - 52) = int n"
      by simp
    finally show ?thesis by simp
  qed
  have r: "round_half_even (of_int (2 ^ 52)) = 2 ^ 52"
    by (rule round_half_even_of_int)
  have c: "((2::rat) ^ 1024 \<le> 2 ^ n) = (1024 \<le> n)"
    by (rule power_increasing_iff) simp
  have "round_double (2 ^ n) = (if 1024 \<le> n then PInf else Fin (2 ^ n))"
    unfolding round_double_def Let_def e m r v c by simp
  then show ?thesis by auto
qed

lemma round_double_values:
  "round_double 0 = Fin 0" "round_double 1 = Fin 1" "round_double 2 = Fin 2"
  "round_double 4 = Fin 4"
  using round_double_pow2 [of 0] round_double_pow2 [of 1] round_double_pow2 [of 2]
  by (simp_all add: round_double_def)




lemmas hist_eval =
  parse_historical_Parsed hist_loop_def hist_init_def TARGET_CURRENCIES_def hist_step_def
  hist_row_def cell_at_def null_or_blank_def str_example_def Let_def

lemma parse_hist_example_4:
  "parse_historical_rates str_example (Parsed hist_example_4) = Inr (DataFrame obs_example_4)"
  by (simp add: hist_eval hist_example_4_def obs_example_4_def)

lemma parse_hist_two_dates:
  "parse_historical_rates str_example (Parsed hist_two_dates) = Inr (DataFrame obs_two_dates)"
  by (simp add: hist_eval hist_two_dates_def obs_two_dates_def)

lemma currency_observations_two_dates:
  "currency_observations str_example hist_two_dates ''USD'' =
     [\<lparr>date = ''2024-01-01'', currency = ''USD'', rate = Fin (27 / 25)\<rparr>,
      \<lparr>date = ''2024-01-02'', currency = ''USD'', rate = Fin (11 / 10)\<rparr>]"
  "currency_observations str_example hist_two_dates ''SEK'' =
     [\<lparr>date = ''2024-01-01'', currency = ''SEK'', rate = Fin (56 / 5)\<rparr>,
      \<lparr>date = ''2024-01-02'', currency = ''SEK'', rate = Fin (113 / 10)\<rparr>]"
  "currency_observations str_example hist_two_dates ''GBP'' = []"
  "currency_observations str_example hist_two_dates ''JPY'' = []"
  by (simp_all add: currency_observations_def row_observation_def hist_two_dates_def
      cell_at_def null_or_blank_def str_example_def)

text \<open>On the table of two dates and two currencies the rows come out currency by
  currency, which is not the order date by date.\<close>

theorem historical_order_witness:
  "parse_historical_rates str_example (Parsed hist_two_dates) = Inr (DataFrame obs_two_dates) \<and>
   rows (DataFrame obs_two_dates) =
     [[Str ''2024-01-01'', Str ''USD'', Num (Fin (27 / 25))],
      [Str ''2024-01-02'', Str ''USD'', Num (Fin (11 / 10))],
      [Str ''2024-01-01'', Str ''SEK'', Num (Fin (56 / 5))],
      [Str ''2024-01-02'', Str ''SEK'', Num (Fin (113 / 10))]] \<and>
   rows (DataFrame obs_two_dates) \<noteq>
     [[Str ''2024-01-01'', Str ''USD'', Num (Fin (27 / 25))],
      [Str ''2024-01-01'', Str ''SEK'', Num (Fin (56 / 5))],
      [Str ''2024-01-02'', Str ''USD'', Num (Fin (11 / 10))],
      [Str ''2024-01-02'', Str ''SEK'', Num (Fin (113 / 10))]]"
proof -
  note t = historical_order [of str_example hist_two_dates "DataFrame obs_two_dates"]
  from t parse_hist_two_dates
  have "rows (DataFrame obs_two_dates) =
       map (\<lambda>ob. [Str (date ob), Str (currency ob), Num (rate ob)])
         (currency_observations str_example hist_two_dates ''USD'' @
          currency_observations str_example hist_two_dates ''SEK'' @
          currency_observations str_example hist_two_dates ''GBP'' @
          currency_observations str_example hist_two_dates ''JPY'')"
    by blast
  then have r: "rows (DataFrame obs_two_dates) =
     [[Str ''2024-01-01'', Str ''USD'', Num (Fin (27 / 25))],
      [Str ''2024-01-02'', Str ''USD'', Num (Fin (11 / 10))],
      [Str ''2024-01-01'', Str ''SEK'', Num (Fin (56 / 5))],
      [Str ''2024-01-02'', Str ''SEK'', Num (Fin (113 / 10))]]"
    by (simp only: currency_observations_two_dates) simp
  then have "rows (DataFrame obs_two_dates) \<noteq>
     [[Str ''2024-01-01'', Str ''USD'', Num (Fin (27 / 25))],
      [Str ''2024-01-01'', Str ''SEK'', Num (Fin (56 / 5))],
      [Str ''2024-01-02'', Str ''USD'', Num (Fin (11 / 10))],
      [Str ''2024-01-02'', Str ''SEK'', Num (Fin (113 / 10))]]"
    by simp
  with parse_hist_two_dates r show ?thesis by blast
qed

section \<open>The extractor's frame in the aggregator\<close>

text \<open>
  C8. When the historical extractor returns a frame, the mean aggregator returns a
  dictionary for it: the frame has a row and the columns \<^verbatim>\<open>currency\<close> and
  \<^verbatim>\<open>rate\<close>, so neither \<^verbatim>\<open>ValueError\<close> of the aggregator (kind InvalidInput)
  is raised.
\<close>

theorem aggregator_accepts_extractor_output:
  "parse_historical_rates py_str src = Inr out \<longrightarrow>
     (\<exists>m. calculate_mean_rates out = Inr m) \<and>
     calculate_mean_rates out \<noteq> Inl (ValueError EmptyDataFrame) \<and>
     calculate_mean_rates out \<noteq> Inl (ValueError MissingRequiredColumns) \<and>
     rows out \<noteq> [] \<and> ''currency'' \<in> set (columns out) \<and> ''rate'' \<in> set (columns out)"
proof
  assume a: "parse_historical_rates py_str src = Inr out"
  from parse_historical_Inr [OF a] obtain df where
    ne: "currency_major py_str df \<noteq> []" and out: "out = DataFrame (currency_major py_str df)"
    by blast
  from ne out have c: "calculate_mean_rates out = Inr (groupby_mean out)"
    by (simp add: calculate_mean_rates_DataFrame)
  from ne out have s: "rows out \<noteq> [] \<and> ''currency'' \<in> set (columns out) \<and> ''rate'' \<in> set (columns out)"
    by (simp add: DataFrame_def)
  from c s show "(\<exists>m. calculate_mean_rates out = Inr m) \<and>
     calculate_mean_rates out \<noteq> Inl (ValueError EmptyDataFrame) \<and>
     calculate_mean_rates out \<noteq> Inl (ValueError MissingRequiredColumns) \<and>
     rows out \<noteq> [] \<and> ''currency'' \<in> set (columns out) \<and> ''rate'' \<in> set (columns out)"
    by simp
qed

theorem aggregator_accepts_extractor_output_witness:
  "parse_historical_rates str_example (Parsed hist_example_4) = Inr (DataFrame obs_example_4) \<and>
   (\<exists>m. calculate_mean_rates (DataFrame obs_example_4) = Inr m) \<and>
   calculate_mean_rates (DataFrame obs_example_4) \<noteq> Inl (ValueError EmptyDataFrame) \<and>
   calculate_mean_rates (DataFrame obs_example_4) \<noteq> Inl (ValueError MissingRequiredColumns)"
  using aggregator_accepts_extractor_output
          [of str_example "Parsed hist_example_4" "DataFrame obs_example_4"]
    parse_hist_example_4
  by blast

section \<open>The mean of a currency\<close>












section \<open>Rates that are not positive\<close>

lemma float_of_str_blank: "float_of_str [] = None" "float_of_str ''N/A'' = None"
  by code_simp+

lemma le_zero_not_blank:
  "py_float v = Some x \<Longrightarrow> le_zero x \<Longrightarrow> \<not> null_or_blank v"
proof (cases v)
  case (Num f)
  assume "py_float v = Some x" and "le_zero x"
  with Num show ?thesis by (cases f) (auto simp: null_or_blank_def)
next
  case (Str s)
  assume "py_float v = Some x"
  with Str show ?thesis by (auto simp: null_or_blank_def float_of_str_blank)
qed

lemma not_le_zero: "\<not> le_zero f \<Longrightarrow> f = NaN \<or> gt_zero f"
  by (cases f) auto

lemma row_observation_non_positive:
  "py_float (cell_at cols r c) = Some x \<Longrightarrow> le_zero x \<Longrightarrow> row_observation py_str cols c r = None"
  by (simp add: row_observation_def)

lemma currency_observations_drop_row:
  assumes "rows hf = xs @ h # ys" and "row_observation py_str (columns hf) c h = None"
  shows "currency_observations py_str (hf\<lparr>rows := xs @ ys\<rparr>) c = currency_observations py_str hf c"
  using assms by (simp add: currency_observations_def map_filter_append)

lemma filter_other_currency:
  "cur \<noteq> c \<Longrightarrow> filter (\<lambda>ob. currency ob = c) (currency_observations py_str d cur) = []"
  by (auto simp: filter_empty_conv dest: currency_observations_currency)

lemma filter_currency_major_drop_row:
  assumes "rows hf = xs @ h # ys" and "row_observation py_str (columns hf) c h = None"
  shows "filter (\<lambda>ob. currency ob = c) (currency_major py_str (hf\<lparr>rows := xs @ ys\<rparr>)) =
         filter (\<lambda>ob. currency ob = c) (currency_major py_str hf)"
proof -
  have "\<And>cur. filter (\<lambda>ob. currency ob = c) (currency_observations py_str (hf\<lparr>rows := xs @ ys\<rparr>) cur) =
              filter (\<lambda>ob. currency ob = c) (currency_observations py_str hf cur)"
  proof -
    fix cur
    show "filter (\<lambda>ob. currency ob = c) (currency_observations py_str (hf\<lparr>rows := xs @ ys\<rparr>) cur) =
              filter (\<lambda>ob. currency ob = c) (currency_observations py_str hf cur)"
    proof (cases "cur = c")
      case True
      with assms show ?thesis by (simp add: currency_observations_drop_row)
    next
      case False
      then show ?thesis by (simp add: filter_other_currency)
    qed
  qed
  then show ?thesis
    by (simp add: currency_major_def filter_concat comp_def)
qed

text \<open>
  C1. In the daily table, a first-row cell of a target currency that converts to a float
  \<open>\<le> 0\<close> is stored in the map under its currency, and the extractor returns that map.
  In the historical table, a cell that converts to a float \<open>\<le> 0\<close> gives no
  observation: the observations of its currency are those of the table without that row,
  and so is the mean the aggregator returns for the currency.
\<close>

theorem non_positive_asymmetry:
  "(rows df = r # rs \<and> c \<in> set TARGET_CURRENCIES \<and> c \<in> set (columns df) \<and>
    py_float (cell_at (columns df) r c) = Some x \<and> le_zero x
    \<longrightarrow> (\<exists>m. parse_daily_rates (Parsed df) = Inr m \<and> map_of m c = Some x)) \<and>
   (rows hf = xs @ h # ys \<and> py_float (cell_at (columns hf) h c) = Some x \<and> le_zero x
    \<longrightarrow> row_observation py_str (columns hf) c h = None \<and>
        filter (\<lambda>ob. currency ob = c) (historical_data (hist_loop py_str hf)) =
        filter (\<lambda>ob. currency ob = c) (historical_data (hist_loop py_str (hf\<lparr>rows := xs @ ys\<rparr>))) \<and>
        (parse_historical_rates py_str (Parsed hf) = Inr out \<and> calculate_mean_rates out = Inr m'
         \<longrightarrow> map_of m' c =
               (if rates_of c (historical_data (hist_loop py_str (hf\<lparr>rows := xs @ ys\<rparr>))) = [] then None
                else Some (skipna_mean
                       (rates_of c (historical_data (hist_loop py_str (hf\<lparr>rows := xs @ ys\<rparr>))))))))"
proof (intro conjI impI)
  assume a: "rows df = r # rs \<and> c \<in> set TARGET_CURRENCIES \<and> c \<in> set (columns df) \<and>
    py_float (cell_at (columns df) r c) = Some x \<and> le_zero x"
  let ?m = "daily_rates (daily_loop (columns df) r)"
  from a have "\<not> null_or_blank (cell_at (columns df) r c)"
    by (simp add: le_zero_not_blank)
  with a have g: "map_of ?m c = Some x"
    by (simp add: daily_loop_get daily_cell_def)
  then have "?m \<noteq> []" by auto
  with a have "parse_daily_rates (Parsed df) = Inr ?m"
    by (simp add: parse_daily_Parsed)
  with g show "\<exists>m. parse_daily_rates (Parsed df) = Inr m \<and> map_of m c = Some x"
    by blast
next
  assume b: "rows hf = xs @ h # ys \<and> py_float (cell_at (columns hf) h c) = Some x \<and> le_zero x"
  then show "row_observation py_str (columns hf) c h = None"
    by (simp add: row_observation_non_positive)
next
  assume b: "rows hf = xs @ h # ys \<and> py_float (cell_at (columns hf) h c) = Some x \<and> le_zero x"
  then have n: "row_observation py_str (columns hf) c h = None"
    by (simp add: row_observation_non_positive)
  from b n show "filter (\<lambda>ob. currency ob = c) (historical_data (hist_loop py_str hf)) =
        filter (\<lambda>ob. currency ob = c) (historical_data (hist_loop py_str (hf\<lparr>rows := xs @ ys\<rparr>)))"
    by (simp add: hist_loop_data filter_currency_major_drop_row)
next
  assume b: "rows hf = xs @ h # ys \<and> py_float (cell_at (columns hf) h c) = Some x \<and> le_zero x"
    and p: "parse_historical_rates py_str (Parsed hf) = Inr out \<and> calculate_mean_rates out = Inr m'"
  from b have n: "row_observation py_str (columns hf) c h = None"
    by (simp add: row_observation_non_positive)
  from b n have "rates_of c (currency_major py_str (hf\<lparr>rows := xs @ ys\<rparr>)) =
      rates_of c (currency_major py_str hf)"
    by (simp add: rates_of_def filter_currency_major_drop_row)
  then have e: "rates_of c (historical_data (hist_loop py_str (hf\<lparr>rows := xs @ ys\<rparr>))) =
      rates_of c (currency_major py_str hf)"
    by (simp add: hist_loop_data)
  from p parse_historical_Inr [of py_str "Parsed hf" out]
  have out: "out = DataFrame (currency_major py_str hf)" and ne: "currency_major py_str hf \<noteq> []"
    by auto
  from p out ne have "m' = groupby_mean (DataFrame (currency_major py_str hf))"
    by (simp add: calculate_mean_rates_DataFrame)
  then show "map_of m' c =
      (if rates_of c (historical_data (hist_loop py_str (hf\<lparr>rows := xs @ ys\<rparr>))) = [] then None
       else Some (skipna_mean
              (rates_of c (historical_data (hist_loop py_str (hf\<lparr>rows := xs @ ys\<rparr>))))))"
    by (simp add: e groupby_mean_DataFrame)
qed

lemma parse_daily_zero:
  "parse_daily_rates (Parsed daily_zero) = Inr [(''USD'', Fin 0), (''SEK'', Fin (- (1 / 2)))]"
  by (simp add: daily_eval daily_zero_def)

theorem non_positive_asymmetry_witness:
  "(\<exists>m. parse_daily_rates (Parsed daily_zero) = Inr m \<and> map_of m ''SEK'' = Some (Fin (- (1 / 2)))) \<and>
   row_observation str_example (columns hist_example_4) ''SEK''
     [Str ''2024-01-01'', Num (Fin (27 / 25)), Num (Fin (- (1 / 2)))] = None \<and>
   parse_historical_rates str_example (Parsed hist_example_4) = Inr (DataFrame obs_example_4) \<and>
   calculate_mean_rates (DataFrame obs_example_4) = Inr (groupby_mean (DataFrame obs_example_4)) \<and>
   map_of (groupby_mean (DataFrame obs_example_4)) ''SEK'' = Some (Fin 2)"
proof -
  let ?r = "[Num (Fin 0), Num (Fin (- (1 / 2)))]"
  let ?h = "[Str ''2024-01-01'', Num (Fin (27 / 25)), Num (Fin (- (1 / 2)))]"
  let ?y = "[Str ''2024-01-02'', Num (Fin (11 / 10)), Num (Fin 2)]"
  have d: "rows daily_zero = ?r # [] \<and> ''SEK'' \<in> set TARGET_CURRENCIES \<and>
      ''SEK'' \<in> set (columns daily_zero) \<and>
      py_float (cell_at (columns daily_zero) ?r ''SEK'') = Some (Fin (- (1 / 2))) \<and>
      le_zero (Fin (- (1 / 2)))"
    by (simp add: daily_zero_def TARGET_CURRENCIES_def cell_at_def)
  have h: "rows hist_example_4 = [] @ ?h # [?y] \<and>
      py_float (cell_at (columns hist_example_4) ?h ''SEK'') = Some (Fin (- (1 / 2))) \<and>
      le_zero (Fin (- (1 / 2)))"
    by (simp add: hist_example_4_def cell_at_def)
  have p: "parse_historical_rates str_example (Parsed hist_example_4) = Inr (DataFrame obs_example_4)"
    by (rule parse_hist_example_4)
  have c: "calculate_mean_rates (DataFrame obs_example_4) = Inr (groupby_mean (DataFrame obs_example_4))"
    by (simp add: calculate_mean_rates_DataFrame obs_example_4_def)
  have rest: "rates_of ''SEK''
      (historical_data (hist_loop str_example (hist_example_4\<lparr>rows := [] @ [?y]\<rparr>))) = [Fin 2]"
    by (simp add: hist_loop_def hist_init_def TARGET_CURRENCIES_def hist_step_def hist_row_def
        cell_at_def null_or_blank_def str_example_def Let_def hist_example_4_def rates_of_def)
  have sk: "skipna_mean [Fin 2] = Fin 2"
    by (simp add: skipna_mean_def kahan_sum_def fsub_def Let_def round_double_values)
  note t = non_positive_asymmetry [of daily_zero ?r "[]" "''SEK''" "Fin (- (1 / 2))"
      hist_example_4 "[]" ?h "[?y]" str_example "DataFrame obs_example_4"
      "groupby_mean (DataFrame obs_example_4)"]
  from t d have 1: "\<exists>m. parse_daily_rates (Parsed daily_zero) = Inr m \<and>
      map_of m ''SEK'' = Some (Fin (- (1 / 2)))"
    by blast
  from t h have 2: "row_observation str_example (columns hist_example_4) ''SEK'' ?h = None"
    by blast
  from t h p c have "map_of (groupby_mean (DataFrame obs_example_4)) ''SEK'' =
      (if rates_of ''SEK''
            (historical_data (hist_loop str_example (hist_example_4\<lparr>rows := [] @ [?y]\<rparr>))) = []
       then None
       else Some (skipna_mean (rates_of ''SEK''
            (historical_data (hist_loop str_example (hist_example_4\<lparr>rows := [] @ [?y]\<rparr>))))))"
    by blast
  then have 3: "map_of (groupby_mean (DataFrame obs_example_4)) ''SEK'' = Some (Fin 2)"
    by (simp only: rest sk) simp
  from 1 2 p c 3 show ?thesis by blast
qed

section \<open>What the extracted rates can be\<close>

text \<open>Text that spells NaN converts and is not \<open>\<le> 0\<close>: the historical extractor keeps
  it as an observation.\<close>

lemma historical_nan_text:
  "parse_historical_rates str_example (Parsed hist_nan_text) =
     Inr (DataFrame [\<lparr>date = ''2024-01-01'', currency = ''USD'', rate = NaN\<rparr>])"
  by (simp add: hist_eval hist_nan_text_def float_of_str_NAN float_of_str_abc)

text \<open>
  C2, as the code has it. When the historical extractor succeeds, no observation of the
  frame has a rate \<open>\<le> 0\<close>: a rate that is a number is strictly positive. When the daily
  extractor succeeds, every rate of its map is the float of the first-row cell of a
  target currency's column, a cell that is neither null nor blank; the rate can be
  positive, zero or negative.
\<close>

theorem extracted_rates:
  "(parse_historical_rates py_str src = Inr out \<longrightarrow>
      (\<exists>data. out = DataFrame data \<and>
         list_all (\<lambda>ob. \<not> le_zero (rate ob) \<and> (rate ob = NaN \<or> gt_zero (rate ob))) data)) \<and>
   (parse_daily_rates (Parsed df) = Inr m \<and> map_of m c = Some x \<longrightarrow>
      (\<exists>r rs. rows df = r # rs \<and> c \<in> set TARGET_CURRENCIES \<and> c \<in> set (columns df) \<and>
         \<not> null_or_blank (cell_at (columns df) r c) \<and>
         py_float (cell_at (columns df) r c) = Some x))"
proof (intro conjI impI)
  assume a: "parse_historical_rates py_str src = Inr out"
  from parse_historical_Inr [OF a] obtain hf where out: "out = DataFrame (currency_major py_str hf)"
    by blast
  have "\<And>ob. ob \<in> set (currency_major py_str hf) \<Longrightarrow> \<not> le_zero (rate ob)"
    by (auto simp: currency_major_def dest: currency_observations_rate)
  then have "list_all (\<lambda>ob. \<not> le_zero (rate ob) \<and> (rate ob = NaN \<or> gt_zero (rate ob)))
      (currency_major py_str hf)"
    by (auto simp: list_all_iff dest: not_le_zero)
  with out show "\<exists>data. out = DataFrame data \<and>
      list_all (\<lambda>ob. \<not> le_zero (rate ob) \<and> (rate ob = NaN \<or> gt_zero (rate ob))) data"
    by blast
next
  assume b: "parse_daily_rates (Parsed df) = Inr m \<and> map_of m c = Some x"
  then obtain r rs where rows: "rows df = r # rs"
    by (cases "rows df") (auto simp: parse_daily_Parsed)
  with b have m: "m = daily_rates (daily_loop (columns df) r)"
    by (simp add: parse_daily_Inr)
  with b have "(if c \<in> set TARGET_CURRENCIES then daily_cell (columns df) r c else None) = Some x"
    by (simp add: daily_loop_get)
  then have "c \<in> set TARGET_CURRENCIES \<and> c \<in> set (columns df) \<and>
      \<not> null_or_blank (cell_at (columns df) r c) \<and> py_float (cell_at (columns df) r c) = Some x"
    by (auto simp: daily_cell_def split: if_splits)
  with rows show "\<exists>r rs. rows df = r # rs \<and> c \<in> set TARGET_CURRENCIES \<and> c \<in> set (columns df) \<and>
      \<not> null_or_blank (cell_at (columns df) r c) \<and> py_float (cell_at (columns df) r c) = Some x"
    by blast
qed

theorem extracted_rates_witness:
  "parse_historical_rates str_example (Parsed hist_example_4) = Inr (DataFrame obs_example_4) \<and>
   (\<exists>data. DataFrame obs_example_4 = DataFrame data \<and>
      list_all (\<lambda>ob. \<not> le_zero (rate ob) \<and> (rate ob = NaN \<or> gt_zero (rate ob))) data) \<and>
   parse_daily_rates (Parsed daily_zero) = Inr [(''USD'', Fin 0), (''SEK'', Fin (- (1 / 2)))] \<and>
   map_of [(''USD'', Fin 0), (''SEK'', Fin (- (1 / 2)))] ''USD'' = Some (Fin 0) \<and>
   (\<exists>r rs. rows daily_zero = r # rs \<and>
      py_float (cell_at (columns daily_zero) r ''USD'') = Some (Fin 0))"
proof -
  let ?m = "[(''USD'', Fin 0), (''SEK'', Fin (- (1 / 2)))]"
  note t = extracted_rates [of str_example "Parsed hist_example_4" "DataFrame obs_example_4"
      daily_zero ?m "''USD''" "Fin 0"]
  have g: "map_of ?m ''USD'' = Some (Fin 0)" by simp
  from t parse_hist_example_4
  have 1: "\<exists>data. DataFrame obs_example_4 = DataFrame data \<and>
      list_all (\<lambda>ob. \<not> le_zero (rate ob) \<and> (rate ob = NaN \<or> gt_zero (rate ob))) data"
    by blast
  from t parse_daily_zero g
  have 2: "\<exists>r rs. rows daily_zero = r # rs \<and>
      py_float (cell_at (columns daily_zero) r ''USD'') = Some (Fin 0)"
    by blast
  from parse_hist_example_4 1 parse_daily_zero g 2 show ?thesis by blast
qed

text \<open>The daily extractor succeeds on a table whose \<^verbatim>\<open>USD\<close> cell is 0 and returns a
  map whose \<^verbatim>\<open>USD\<close> rate is zero: not strictly positive, and zero.\<close>

theorem rate_positivity_counterexample:
  "parse_daily_rates (Parsed daily_zero) = Inr [(''USD'', Fin 0), (''SEK'', Fin (- (1 / 2)))] \<and>
   map_of [(''USD'', Fin 0), (''SEK'', Fin (- (1 / 2)))] ''USD'' = Some (Fin 0) \<and>
   \<not> gt_zero (Fin 0) \<and> le_zero (Fin 0)"
  by (simp add: parse_daily_zero)

section \<open>The report table: rows and cells\<close>

lemma fold_table_step:
  "fold (table_step daily mean) cs acc =
     acc @ map (\<lambda>cur. \<lparr>currency_code = cur, rate_cell = rate_text (map_of daily cur),
                       mean_historical_rate = rate_text (map_of mean cur)\<rparr>) cs"
  by (induction cs arbitrary: acc) (simp_all add: table_step_def)

lemma table_data_map:
  "table_data daily mean =
     map (\<lambda>cur. \<lparr>currency_code = cur, rate_cell = rate_text (map_of daily cur),
                  mean_historical_rate = rate_text (map_of mean cur)\<rparr>) TARGET_CURRENCIES"
  by (simp add: table_data_def fold_table_step)

text \<open>
  C10. Whatever the two dictionaries hold, the table has one row for each configured
  currency, in the configured order, four rows in all; a currency that neither dictionary
  holds has its row, with \<^verbatim>\<open>N/A\<close> in both value cells.
\<close>

theorem report_row_per_currency:
  "length (table_data daily mean) = length TARGET_CURRENCIES \<and>
   length (table_data daily mean) = 4 \<and>
   map currency_code (table_data daily mean) = TARGET_CURRENCIES \<and>
   distinct (map currency_code (table_data daily mean)) \<and>
   (c \<in> set TARGET_CURRENCIES \<and> map_of daily c = None \<and> map_of mean c = None \<longrightarrow>
      \<lparr>currency_code = c, rate_cell = ''N/A'', mean_historical_rate = ''N/A''\<rparr>
        \<in> set (table_data daily mean))"
proof -
  have m: "map currency_code (table_data daily mean) = TARGET_CURRENCIES"
    by (simp add: table_data_map comp_def)
  have "c \<in> set TARGET_CURRENCIES \<and> map_of daily c = None \<and> map_of mean c = None \<longrightarrow>
      \<lparr>currency_code = c, rate_cell = ''N/A'', mean_historical_rate = ''N/A''\<rparr>
        \<in> set (table_data daily mean)"
  proof
    assume a: "c \<in> set TARGET_CURRENCIES \<and> map_of daily c = None \<and> map_of mean c = None"
    then have "\<lparr>currency_code = c, rate_cell = rate_text (map_of daily c),
        mean_historical_rate = rate_text (map_of mean c)\<rparr> \<in> set (table_data daily mean)"
      by (auto simp: table_data_map intro!: image_eqI [where x = c])
    with a show "\<lparr>currency_code = c, rate_cell = ''N/A'', mean_historical_rate = ''N/A''\<rparr>
        \<in> set (table_data daily mean)"
      by (simp add: rate_text_def)
  qed
  moreover have "length (table_data daily mean) = length TARGET_CURRENCIES"
    by (simp add: table_data_map)
  moreover have "length (table_data daily mean) = 4"
    by (simp add: table_data_map TARGET_CURRENCIES_def)
  moreover have "distinct (map currency_code (table_data daily mean))"
    by (simp add: m TARGET_CURRENCIES_def)
  ultimately show ?thesis using m by blast
qed

theorem report_row_per_currency_witness:
  "''GBP'' \<in> set TARGET_CURRENCIES \<and> map_of [] ''GBP'' = (None :: pyfloat option) \<and>
   length (table_data [] []) = 4 \<and>
   \<lparr>currency_code = ''GBP'', rate_cell = ''N/A'', mean_historical_rate = ''N/A''\<rparr>
     \<in> set (table_data [] [])"
proof -
  have a: "''GBP'' \<in> set TARGET_CURRENCIES"
    by (simp add: TARGET_CURRENCIES_def)
  have b: "map_of [] ''GBP'' = (None :: pyfloat option)"
    by simp
  from report_row_per_currency [of "[]" "[]" "''GBP''"] a b show ?thesis
    by blast
qed

lemma digit_chars: "char_of (48 :: nat) = CHR ''0''" "char_of (53 :: nat) = CHR ''5''"
  by code_simp+

lemma show_nat_digits: "show_nat 0 = ''0''" "show_nat 5000 = ''5000''"
  by (simp_all add: show_nat.simps digit_chars)

lemma pad4_values: "pad4 ''0'' = ''0000''" "pad4 ''5000'' = ''5000''"
  by (simp_all add: pad4_def numeral_3_eq_3)

lemmas show_nat_values = show_nat_digits pad4_values

lemma format_4f_zero: "format_4f (Fin 0) = ''0.0000''"
  by (simp add: round_half_even_def show_nat_values)

lemma format_4f_minus_half: "format_4f (Fin (- (1 / 2))) = ''-0.5000''"
  by (simp add: round_half_even_def show_nat_values)

text \<open>
  C9, where the code departs from it. The daily extractor keeps a rate of zero in its
  map; \<^verbatim>\<open>create_html_table\<close> tests the looked-up rate for truth, and the float zero
  is false: the currency is in the map, four decimal places would print \<^verbatim>\<open>0.0000\<close>,
  and the cell reads \<^verbatim>\<open>N/A\<close>. A negative rate prints with its four decimal places.
\<close>

theorem zero_rate_rendered_na:
  "parse_daily_rates (Parsed daily_zero) = Inr [(''USD'', Fin 0), (''SEK'', Fin (- (1 / 2)))] \<and>
   map_of [(''USD'', Fin 0), (''SEK'', Fin (- (1 / 2)))] ''USD'' = Some (Fin 0) \<and>
   format_4f (Fin 0) = ''0.0000'' \<and>
   table_data [(''USD'', Fin 0), (''SEK'', Fin (- (1 / 2)))] [] =
     [\<lparr>currency_code = ''USD'', rate_cell = ''N/A'', mean_historical_rate = ''N/A''\<rparr>,
      \<lparr>currency_code = ''SEK'', rate_cell = ''-0.5000'', mean_historical_rate = ''N/A''\<rparr>,
      \<lparr>currency_code = ''GBP'', rate_cell = ''N/A'', mean_historical_rate = ''N/A''\<rparr>,
      \<lparr>currency_code = ''JPY'', rate_cell = ''N/A'', mean_historical_rate = ''N/A''\<rparr>]"
proof -
  have "table_data [(''USD'', Fin 0), (''SEK'', Fin (- (1 / 2)))] [] =
     [\<lparr>currency_code = ''USD'', rate_cell = ''N/A'', mean_historical_rate = ''N/A''\<rparr>,
      \<lparr>currency_code = ''SEK'', rate_cell = ''-0.5000'', mean_historical_rate = ''N/A''\<rparr>,
      \<lparr>currency_code = ''GBP'', rate_cell = ''N/A'', mean_historical_rate = ''N/A''\<rparr>,
      \<lparr>currency_code = ''JPY'', rate_cell = ''N/A'', mean_historical_rate = ''N/A''\<rparr>]"
    by (simp add: table_data_map TARGET_CURRENCIES_def rate_text_def format_4f_minus_half
        del: format_4f.simps)
  then show ?thesis
    by (simp add: parse_daily_zero format_4f_zero del: format_4f.simps)
qed

text \<open>What the cell of a row reads: \<^verbatim>\<open>N/A\<close> for a currency the dictionary does not
  hold and for a rate of zero, the four decimal places for every other rate.\<close>

lemma rate_text_cases:
  "rate_text None = ''N/A''"
  "rate_text (Some (Fin 0)) = ''N/A''"
  "truthy f \<Longrightarrow> rate_text (Some f) = format_4f f"
  by (simp_all add: rate_text_def del: format_4f.simps)

end
